theory Spec2Isabelle
  imports Complex_Main
begin

section \<open>Data model (src/shared/schema.ts)\<close>

text \<open>
  The tables of \<^verbatim>\<open>shared/schema.ts\<close> that the sustainability ledger and the badge
  engine of \<^verbatim>\<open>server/storage.ts\<close> read and write. A table is the list of its rows in
  insertion order. Columns that no operation below reads (profile texts, image url, tags,
  rental data, the timestamps \<^verbatim>\<open>createdAt\<close>, \<^verbatim>\<open>updatedAt\<close>, \<^verbatim>\<open>earnedAt\<close>) are left out.
  A nullable column is an \<open>option\<close>. User ids are the \<^verbatim>\<open>varchar\<close> the login supplies;
  ids the store generates (\<^verbatim>\<open>gen_random_uuid()\<close>) are natural numbers, a new one
  being any number the table does not hold yet.
\<close>

text \<open>
  A decimal text such as \<^verbatim>\<open>"2.5"\<close> is the pair of its unscaled digits and its scale:
  \<^verbatim>\<open>"2.5"\<close> is \<open>Decimal 25 1\<close>, \<^verbatim>\<open>"2.50"\<close> is \<open>Decimal 250 2\<close>, \<^verbatim>\<open>"0"\<close> is
  \<open>Decimal 0 0\<close>. Texts that are not plain decimal numbers are outside this type: the
  insert into \<^verbatim>\<open>posts\<close> rejects them before any ledger step.
\<close>

datatype decimal = Decimal (unscaled: int) (scale: nat)


datatype error = IntegerOutOfRange | NumericFieldOverflow | ForeignKeyViolation

record User =
  u_id :: string
  u_ecoPoints :: "int option"
  u_waterSaved :: "decimal option"
  u_carbonReduced :: "decimal option"
  u_itemsReused :: "int option"

record Post =
  p_id :: nat
  p_userId :: string
  p_waterSaved :: "decimal option"
  p_carbonReduced :: "decimal option"
  p_ecoPoints :: "int option"
  p_likesCount :: "int option"

record Badge =
  b_id :: nat
  b_name :: string
  b_description :: "string option"
  b_icon :: "string option"
  b_requirement :: "string option"

record UserBadge =
  ub_id :: nat
  ub_userId :: string
  ub_badgeId :: nat

record db =
  users :: "User list"
  posts :: "Post list"
  badges :: "Badge list"
  userBadges :: "UserBadge list"

text \<open>
  \<^verbatim>\<open>InsertPost\<close>: the optional columns of a post to insert. A field of the object is
  \<^verbatim>\<open>undefined\<close> (\<open>Absent\<close>, the column default applies), \<^verbatim>\<open>null\<close> or a value.
\<close>

datatype 'a field = Absent | Null | Value 'a

record InsertPost =
  ip_userId :: string
  ip_waterSaved :: "decimal field"
  ip_carbonReduced :: "decimal field"
  ip_ecoPoints :: "int field"

text \<open>The argument of \<^verbatim>\<open>updateUserStats\<close>: every field optional, \<open>None\<close> when not given.\<close>

record UserStats =
  s_ecoPoints :: "int option"
  s_waterSaved :: "decimal option"
  s_carbonReduced :: "decimal option"
  s_itemsReused :: "int option"

section \<open>Column types of the store\<close>

text \<open>
  Modelled from the column declarations of \<^verbatim>\<open>shared/schema.ts\<close> (the store itself,
  PostgreSQL behind \<^verbatim>\<open>server/db.ts\<close>, is not part of the sources):

  \<^item> \<^verbatim>\<open>integer(...)\<close> holds a 32-bit signed integer; a value outside the range fails the
    statement;
  \<^item> \<^verbatim>\<open>decimal(..., { precision: p, scale: 2 })\<close> rounds the value written to two
    decimal places, half away from zero, and fails the statement when the rounded value
    needs more than \<open>p\<close> digits; the value read back has exactly two decimal places;
  \<^item> \<^verbatim>\<open>references(() => users.id)\<close> fails an insert whose user id is not in \<^verbatim>\<open>users\<close>.
\<close>

definition integer_col :: "int option \<Rightarrow> error + int option" where
  "integer_col v =
     (case v of
        None \<Rightarrow> Inr None
      | Some n \<Rightarrow>
          if - 2147483648 \<le> n \<and> n \<le> 2147483647 then Inr (Some n)
          else Inl IntegerOutOfRange)"

definition round_half_away :: "int \<Rightarrow> int \<Rightarrow> int" where
  "round_half_away m d =
     (if 0 \<le> m then (m + d div 2) div d else - ((- m + d div 2) div d))"

definition round_scale2 :: "decimal \<Rightarrow> int" where
  "round_scale2 d =
     (if scale d \<le> 2 then unscaled d * 10 ^ (2 - scale d)
      else round_half_away (unscaled d) (10 ^ (scale d - 2)))"

definition numeric_col :: "nat \<Rightarrow> decimal option \<Rightarrow> error + decimal option" where
  "numeric_col p v =
     (case v of
        None \<Rightarrow> Inr None
      | Some d \<Rightarrow>
          if \<bar>round_scale2 d\<bar> < 10 ^ p then Inr (Some (Decimal (round_scale2 d) 2))
          else Inl NumericFieldOverflow)"

definition column_default :: "'a field \<Rightarrow> 'a \<Rightarrow> 'a option" where
  "column_default f d = (case f of Absent \<Rightarrow> Some d | Null \<Rightarrow> None | Value v \<Rightarrow> Some v)"

definition fresh_id :: "nat list \<Rightarrow> nat" where
  "fresh_id ids = Suc (foldr max ids 0)"

text \<open>The text of a scale-2 value as the store returns it: \<^verbatim>\<open>"2.50"\<close>, \<^verbatim>\<open>"-0.07"\<close>.\<close>

definition digit_char :: "nat \<Rightarrow> char" where
  "digit_char n = ''0123456789'' ! (n mod 10)"

function nat_text :: "nat \<Rightarrow> string" where
  "nat_text n = (if n < 10 then [digit_char n] else nat_text (n div 10) @ [digit_char n])"
  by pat_completeness auto
termination
  by (relation "measure (\<lambda>n. n)") auto

declare nat_text.simps [simp del]

definition numeric_text :: "decimal \<Rightarrow> string" where
  "numeric_text d =
     (let h = round_scale2 d; a = nat \<bar>h\<bar>
      in (if h < 0 then ''-'' else '''') @ nat_text (a div 100) @ ''.''
         @ [digit_char (a div 10), digit_char a])"

section \<open>JavaScript values\<close>

text \<open>
  \<^verbatim>\<open>x || d\<close> yields \<open>d\<close> when \<open>x\<close> is falsy: \<^verbatim>\<open>undefined\<close>, \<^verbatim>\<open>null\<close>, the number
  \<open>0\<close> (and \<^verbatim>\<open>NaN\<close>), or the empty string. A decimal text is never empty.
\<close>

definition defined :: "'a field \<Rightarrow> 'a option" where
  "defined f = (case f of Value v \<Rightarrow> Some v | _ \<Rightarrow> None)"

definition number_or :: "int option \<Rightarrow> int \<Rightarrow> int" where
  "number_or x d = (case x of None \<Rightarrow> d | Some n \<Rightarrow> if n = 0 then d else n)"

definition text_or :: "decimal option \<Rightarrow> decimal \<Rightarrow> decimal" where
  "text_or x d = (case x of None \<Rightarrow> d | Some v \<Rightarrow> v)"

text \<open>
  \<^verbatim>\<open>(parseFloat(a) + parseFloat(b)).toString()\<close> on decimal texts: the sum as a decimal
  text. The sum is taken exactly; the binary rounding of the floating-point addition is
  not represented.
\<close>

definition parseFloat_sum :: "decimal \<Rightarrow> decimal \<Rightarrow> decimal" where
  "parseFloat_sum a b =
     (let s = max (scale a) (scale b)
      in Decimal (unscaled a * 10 ^ (s - scale a) + unscaled b * 10 ^ (s - scale b)) s)"

text \<open>\<^verbatim>\<open>parseFloat(a) >= n\<close> for an integer literal \<open>n\<close>.\<close>

definition parseFloat_ge :: "decimal \<Rightarrow> int \<Rightarrow> bool" where
  "parseFloat_ge a n = (n * 10 ^ scale a \<le> unscaled a)"

text \<open>
  A JavaScript number that results from a division: finite, or what a zero divisor
  yields (\<^verbatim>\<open>0 / 0\<close> is \<^verbatim>\<open>NaN\<close>, \<^verbatim>\<open>x / 0\<close> is an infinity).
\<close>

datatype number = Finite rat | NaN | PosInfinity | NegInfinity

definition js_divide :: "int \<Rightarrow> int \<Rightarrow> number" where
  "js_divide a b =
     (if b = 0 then (if a = 0 then NaN else if 0 < a then PosInfinity else NegInfinity)
      else Finite (of_int a / of_int b))"

fun number_ge :: "number \<Rightarrow> rat \<Rightarrow> bool" where
  "number_ge (Finite r) k = (k \<le> r)"
| "number_ge NaN k = False"
| "number_ge PosInfinity k = True"
| "number_ge NegInfinity k = False"

section \<open>Storage operations (src/server/storage.ts)\<close>

subsection \<open>Users\<close>

definition getUser :: "string \<Rightarrow> db \<Rightarrow> User option" where
  "getUser ident d = find (\<lambda>u. u_id u = ident) (users d)"

definition set_stats :: "UserStats \<Rightarrow> User \<Rightarrow> User" where
  "set_stats st u =
     u\<lparr>u_ecoPoints := (case s_ecoPoints st of None \<Rightarrow> u_ecoPoints u | Some n \<Rightarrow> Some n),
       u_waterSaved := (case s_waterSaved st of None \<Rightarrow> u_waterSaved u | Some w \<Rightarrow> Some w),
       u_carbonReduced :=
         (case s_carbonReduced st of None \<Rightarrow> u_carbonReduced u | Some c \<Rightarrow> Some c),
       u_itemsReused := (case s_itemsReused st of None \<Rightarrow> u_itemsReused u | Some n \<Rightarrow> Some n)\<rparr>"

text \<open>
  \<^verbatim>\<open>updateUserStats\<close>: the given fields are written to the row of the user, each through
  its column type (\<^verbatim>\<open>users.ecoPoints\<close>, \<^verbatim>\<open>users.itemsReused\<close>: integer;
  \<^verbatim>\<open>users.waterSaved\<close>, \<^verbatim>\<open>users.carbonReduced\<close>: decimal, precision 10, scale 2).
  A value that does not fit fails the update and no row changes.
\<close>

definition updateUserStats :: "string \<Rightarrow> UserStats \<Rightarrow> db \<Rightarrow> error + db" where
  "updateUserStats userId stats d =
     (case integer_col (s_ecoPoints stats) of Inl e \<Rightarrow> Inl e | Inr eco \<Rightarrow>
      case numeric_col 10 (s_waterSaved stats) of Inl e \<Rightarrow> Inl e | Inr water \<Rightarrow>
      case numeric_col 10 (s_carbonReduced stats) of Inl e \<Rightarrow> Inl e | Inr carbon \<Rightarrow>
      case integer_col (s_itemsReused stats) of Inl e \<Rightarrow> Inl e | Inr items \<Rightarrow>
        Inr (d\<lparr>users :=
               map (\<lambda>u. if u_id u = userId
                        then set_stats \<lparr>s_ecoPoints = eco, s_waterSaved = water,
                                       s_carbonReduced = carbon, s_itemsReused = items\<rparr> u
                        else u)
                   (users d)\<rparr>))"

subsection \<open>Posts and badges read by the evaluator\<close>

text \<open>\<^verbatim>\<open>getPostsByUser\<close>: the posts of the user, newest first.\<close>

definition getPostsByUser :: "string \<Rightarrow> db \<Rightarrow> Post list" where
  "getPostsByUser userId d = rev (filter (\<lambda>p. p_userId p = userId) (posts d))"

text \<open>
  \<^verbatim>\<open>getUserBadges\<close>: the inner join of the awards of the user with the catalog on
  \<^verbatim>\<open>userBadges.badgeId = badges.id\<close>.
\<close>

definition getUserBadges :: "string \<Rightarrow> db \<Rightarrow> Badge list" where
  "getUserBadges userId d =
     concat (map (\<lambda>ub. filter (\<lambda>b. b_id b = ub_badgeId ub) (badges d))
                 (filter (\<lambda>ub. ub_userId ub = userId) (userBadges d)))"

subsection \<open>Seeding the catalog\<close>

text \<open>
  The six rows of \<^verbatim>\<open>defaultBadges\<close>: name, description, icon, requirement. The
  characters outside ASCII are the bytes of the source file.
\<close>

definition defaultBadges :: "(string \<times> string \<times> string \<times> string) list" where
  "defaultBadges =
     [(''Eco Star'', ''50+ eco-friendly posts'',
       [CHR 0xE2, CHR 0x80, CHR 0x9A, CHR 0xC3, CHR 0xB4, CHR 0xC2, CHR 0xAA, CHR 0xC3,
        CHR 0x94, CHR 0xE2, CHR 0x88, CHR 0x8F, CHR 0xC3, CHR 0xA8],
       ''posts_count_50''),
      (''Green Icon'', ''1000+ eco points'',
       [CHR 0xEF, CHR 0xA3, CHR 0xBF, CHR 0xC3, CHR 0xBC, CHR 0xC3, CHR 0xAD, CHR 0xC3,
        CHR 0xB6],
       ''eco_points_1000''),
      (''Water Saver'', ''200L+ water saved'',
       [CHR 0xEF, CHR 0xA3, CHR 0xBF, CHR 0xC3, CHR 0xBC, CHR 0xC3, CHR 0xAD, CHR 0xC3,
        CHR 0x9F],
       ''water_saved_200''),
      (''Trendsetter'', ''100+ likes average'',
       [CHR 0xEF, CHR 0xA3, CHR 0xBF, CHR 0xC3, CHR 0xBC, CHR 0xC3, CHR 0xA5, CHR 0xC3,
        CHR 0xBC],
       ''likes_average_100''),
      (''Thrift Champion'', ''100 thrift finds'',
       [CHR 0xEF, CHR 0xA3, CHR 0xBF, CHR 0xC3, CHR 0xBC, CHR 0xC3, CHR 0xA8, CHR 0xC3,
        CHR 0x9C],
       ''posts_count_100''),
      (''Planet Protector'',
       ''Save 100kg CO'' @ [CHR 0xE2, CHR 0x80, CHR 0x9A, CHR 0xC3, CHR 0x87, CHR 0xC3, CHR 0x87],
       [CHR 0xEF, CHR 0xA3, CHR 0xBF, CHR 0xC3, CHR 0xBC, CHR 0xC3, CHR 0xA5, CHR 0xC3,
        CHR 0xA7],
       ''carbon_reduced_100'')]"

text \<open>\<^verbatim>\<open>db.insert(badges).values(...)\<close>: each row is appended under a new id.\<close>

definition insert_badge :: "Badge list \<Rightarrow> string \<times> string \<times> string \<times> string \<Rightarrow> Badge list" where
  "insert_badge bs v =
     (case v of (name, description, icon, requirement) \<Rightarrow>
        bs @ [\<lparr>b_id = fresh_id (map b_id bs), b_name = name,
                b_description = Some description, b_icon = Some icon,
                b_requirement = Some requirement\<rparr>])"

definition initializeBadges :: "db \<Rightarrow> db" where
  "initializeBadges d =
     (let existingBadges = badges d
      in if length existingBadges = 0
         then d\<lparr>badges := foldl insert_badge (badges d) defaultBadges\<rparr>
         else d)"

subsection \<open>The badge evaluator\<close>

definition totalLikes :: "Post list \<Rightarrow> int" where
  "totalLikes userPosts = foldl (\<lambda>sum post. sum + number_or (p_likesCount post) 0) 0 userPosts"

definition avgLikes :: "Post list \<Rightarrow> number" where
  "avgLikes userPosts =
     (if length userPosts > 0 then js_divide (totalLikes userPosts) (int (length userPosts))
      else Finite 0)"

text \<open>
  The \<^verbatim>\<open>switch (badge.requirement)\<close> of \<^verbatim>\<open>checkAndAwardBadges\<close>: the value of
  \<^verbatim>\<open>shouldAward\<close> after it. There is no default case.
\<close>

definition shouldAward :: "string option \<Rightarrow> User \<Rightarrow> Post list \<Rightarrow> bool" where
  "shouldAward requirement user userPosts =
     (if requirement = Some ''posts_count_50'' then length userPosts \<ge> 50
      else if requirement = Some ''posts_count_100'' then length userPosts \<ge> 100
      else if requirement = Some ''eco_points_1000'' then number_or (u_ecoPoints user) 0 \<ge> 1000
      else if requirement = Some ''water_saved_200''
        then parseFloat_ge (text_or (u_waterSaved user) (Decimal 0 0)) 200
      else if requirement = Some ''carbon_reduced_100''
        then parseFloat_ge (text_or (u_carbonReduced user) (Decimal 0 0)) 100
      else if requirement = Some ''likes_average_100'' then number_ge (avgLikes userPosts) 100
      else False)"

text \<open>
  \<^verbatim>\<open>db.insert(userBadges).values({ userId, badgeId })\<close>. Both references hold where the
  evaluator inserts: the user was just read, the badge is a catalog row.
\<close>

definition insert_userBadge :: "string \<Rightarrow> nat \<Rightarrow> db \<Rightarrow> db" where
  "insert_userBadge userId badgeId d =
     d\<lparr>userBadges := userBadges d @
          [\<lparr>ub_id = fresh_id (map ub_id (userBadges d)), ub_userId = userId,
            ub_badgeId = badgeId\<rparr>]\<rparr>"

text \<open>The loop \<^verbatim>\<open>for (const badge of allBadges)\<close>.\<close>

fun award_loop :: "string \<Rightarrow> User \<Rightarrow> Post list \<Rightarrow> string list \<Rightarrow> Badge list \<Rightarrow> db \<Rightarrow> db" where
  "award_loop userId user userPosts existingBadgeNames [] d = d"
| "award_loop userId user userPosts existingBadgeNames (badge # rest) d =
     (if b_name badge \<in> set existingBadgeNames
      then award_loop userId user userPosts existingBadgeNames rest d
      else if shouldAward (b_requirement badge) user userPosts
      then award_loop userId user userPosts existingBadgeNames rest
             (insert_userBadge userId (b_id badge) d)
      else award_loop userId user userPosts existingBadgeNames rest d)"

definition checkAndAwardBadges :: "string \<Rightarrow> db \<Rightarrow> db" where
  "checkAndAwardBadges userId d =
     (case getUser userId d of
        None \<Rightarrow> d
      | Some user \<Rightarrow>
          let userPosts = getPostsByUser userId d;
              existingBadges = getUserBadges userId d;
              existingBadgeNames = map b_name existingBadges;
              allBadges = badges d
          in award_loop userId user userPosts existingBadgeNames allBadges d)"

subsection \<open>Creating a post\<close>

text \<open>
  \<^verbatim>\<open>db.insert(posts).values(post).returning()\<close>: the values pass their column types
  (\<^verbatim>\<open>posts.ecoPoints\<close>: integer, default 0; \<^verbatim>\<open>posts.waterSaved\<close>,
  \<^verbatim>\<open>posts.carbonReduced\<close>: decimal, precision 8, scale 2, default 0), the user id must
  reference a user, and the row is appended under a new id with \<^verbatim>\<open>likesCount\<close> at its
  default 0.
\<close>

definition insert_post :: "InsertPost \<Rightarrow> db \<Rightarrow> error + Post \<times> db" where
  "insert_post post d =
     (case integer_col (column_default (ip_ecoPoints post) 0) of Inl e \<Rightarrow> Inl e | Inr eco \<Rightarrow>
      case numeric_col 8 (column_default (ip_waterSaved post) (Decimal 0 0)) of
        Inl e \<Rightarrow> Inl e | Inr water \<Rightarrow>
      case numeric_col 8 (column_default (ip_carbonReduced post) (Decimal 0 0)) of
        Inl e \<Rightarrow> Inl e | Inr carbon \<Rightarrow>
      if getUser (ip_userId post) d = None then Inl ForeignKeyViolation
      else
        let newPost = \<lparr>p_id = fresh_id (map p_id (posts d)), p_userId = ip_userId post,
                        p_waterSaved = water, p_carbonReduced = carbon, p_ecoPoints = eco,
                        p_likesCount = Some 0\<rparr>
        in Inr (newPost, d\<lparr>posts := posts d @ [newPost]\<rparr>))"

text \<open>
  The block \<^verbatim>\<open>// Update user stats\<close> of \<^verbatim>\<open>createPost\<close>, run on the store that
  already holds the new post. A failed update leaves the store as the insert left it.
\<close>

definition update_stats_for_post :: "InsertPost \<Rightarrow> db \<Rightarrow> error + db" where
  "update_stats_for_post post d =
     (case getUser (ip_userId post) d of
        None \<Rightarrow> Inr d
      | Some currentUser \<Rightarrow>
          let newEcoPoints =
                number_or (u_ecoPoints currentUser) 0 + number_or (defined (ip_ecoPoints post)) 0;
              newWaterSaved =
                parseFloat_sum (text_or (u_waterSaved currentUser) (Decimal 0 0))
                               (text_or (defined (ip_waterSaved post)) (Decimal 0 0));
              newCarbonReduced =
                parseFloat_sum (text_or (u_carbonReduced currentUser) (Decimal 0 0))
                               (text_or (defined (ip_carbonReduced post)) (Decimal 0 0));
              newItemsReused = number_or (u_itemsReused currentUser) 0 + 1
          in case updateUserStats (ip_userId post)
                    \<lparr>s_ecoPoints = Some newEcoPoints, s_waterSaved = Some newWaterSaved,
                     s_carbonReduced = Some newCarbonReduced,
                     s_itemsReused = Some newItemsReused\<rparr> d of
               Inl e \<Rightarrow> Inl e
             | Inr d' \<Rightarrow> Inr (checkAndAwardBadges (ip_userId post) d'))"

text \<open>
  \<^verbatim>\<open>createPost\<close>: the result (the new post, or the error thrown) and the store
  afterwards. Nothing is rolled back: an error after the insert leaves the post stored.
\<close>

definition createPost :: "InsertPost \<Rightarrow> db \<Rightarrow> (error + Post) \<times> db" where
  "createPost post d =
     (case insert_post post d of
        Inl e \<Rightarrow> (Inl e, d)
      | Inr (newPost, d1) \<Rightarrow>
          (case update_stats_for_post post d1 of
             Inl e \<Rightarrow> (Inl e, d1)
           | Inr d2 \<Rightarrow> (Inr newPost, d2)))"

section \<open>The post-creation route (src/server/routes.ts)\<close>














section \<open>Notions of the specification\<close>

text \<open>The contribution of a post as \<^verbatim>\<open>createPost\<close> reads it.\<close>

definition contribution_ecoPoints :: "InsertPost \<Rightarrow> int" where
  "contribution_ecoPoints post = number_or (defined (ip_ecoPoints post)) 0"

definition contribution_waterSaved :: "InsertPost \<Rightarrow> decimal" where
  "contribution_waterSaved post = text_or (defined (ip_waterSaved post)) (Decimal 0 0)"

definition contribution_carbonReduced :: "InsertPost \<Rightarrow> decimal" where
  "contribution_carbonReduced post = text_or (defined (ip_carbonReduced post)) (Decimal 0 0)"

text \<open>The totals of a user row as numbers; the decimal totals in hundredths.\<close>

definition total_ecoPoints :: "User \<Rightarrow> int" where
  "total_ecoPoints u = number_or (u_ecoPoints u) 0"

definition total_itemsReused :: "User \<Rightarrow> int" where
  "total_itemsReused u = number_or (u_itemsReused u) 0"

definition total_waterSaved :: "User \<Rightarrow> int" where
  "total_waterSaved u = round_scale2 (text_or (u_waterSaved u) (Decimal 0 0))"

definition total_carbonReduced :: "User \<Rightarrow> int" where
  "total_carbonReduced u = round_scale2 (text_or (u_carbonReduced u) (Decimal 0 0))"

text \<open>
  A decimal total as the column holds it when it is not negative: no value, or a value
  with at most two decimal places that is at least 0.
\<close>

definition stored_total :: "decimal option \<Rightarrow> bool" where
  "stored_total v = (case v of None \<Rightarrow> True | Some w \<Rightarrow> scale w \<le> 2 \<and> 0 \<le> unscaled w)"

text \<open>
  The row of a user after the contribution of a post was added to it: eco-points plus
  the eco-points of the post, the decimal totals plus the contribution rounded to two
  decimal places, items-reused plus 1.
\<close>

definition credited :: "User \<Rightarrow> InsertPost \<Rightarrow> User" where
  "credited usr post =
     usr\<lparr>u_ecoPoints := Some (total_ecoPoints usr + contribution_ecoPoints post),
         u_waterSaved :=
           Some (Decimal (total_waterSaved usr + round_scale2 (contribution_waterSaved post)) 2),
         u_carbonReduced :=
           Some (Decimal (total_carbonReduced usr
                            + round_scale2 (contribution_carbonReduced post)) 2),
         u_itemsReused := Some (total_itemsReused usr + 1)\<rparr>"

text \<open>
  A contribution that is not negative and whose decimal parts fit the columns of
  \<^verbatim>\<open>posts\<close> (precision 8, scale 2).
\<close>

definition accepted_contribution :: "InsertPost \<Rightarrow> bool" where
  "accepted_contribution post =
     (0 \<le> contribution_ecoPoints post \<and>
      0 \<le> unscaled (contribution_waterSaved post) \<and>
      0 \<le> unscaled (contribution_carbonReduced post) \<and>
      round_scale2 (contribution_waterSaved post) < 10 ^ 8 \<and>
      round_scale2 (contribution_carbonReduced post) < 10 ^ 8)"



text \<open>The number of award rows of a (user, badge) pair.\<close>

definition award_count :: "string \<Rightarrow> nat \<Rightarrow> db \<Rightarrow> nat" where
  "award_count userId badgeId d =
     length (filter (\<lambda>ub. ub_userId ub = userId \<and> ub_badgeId ub = badgeId) (userBadges d))"

text \<open>The (user, badge) pairs of the award rows, in table order.\<close>

definition award_keys :: "db \<Rightarrow> (string \<times> nat) list" where
  "award_keys d = map (\<lambda>ub. (ub_userId ub, ub_badgeId ub)) (userBadges d)"

text \<open>
  The operations that reach the award table, and a run of them on the store. What an
  operation returns or throws is dropped here; the store it leaves is kept.
\<close>

datatype operation = CreatePost InsertPost | CheckAndAwardBadges string | InitializeBadges

fun run_operation :: "db \<Rightarrow> operation \<Rightarrow> db" where
  "run_operation d (CreatePost post) = snd (createPost post d)"
| "run_operation d (CheckAndAwardBadges userId) = checkAndAwardBadges userId d"
| "run_operation d InitializeBadges = initializeBadges d"

definition run_operations :: "operation list \<Rightarrow> db \<Rightarrow> db" where
  "run_operations ops d = foldl run_operation d ops"

text \<open>The requirement identifiers the \<^verbatim>\<open>switch\<close> of the evaluator has a case for.\<close>

definition recognized_requirements :: "string list" where
  "recognized_requirements =
     [''posts_count_50'', ''posts_count_100'', ''eco_points_1000'', ''water_saved_200'',
      ''carbon_reduced_100'', ''likes_average_100'']"

section \<open>Example stores\<close>

text \<open>
  Concrete data on which the theorems below are run: a user with the given totals, a
  post of a user with the default contribution, the store of given users after the
  catalog was seeded, and \<open>n\<close> stored posts of a user with the given like count each.
\<close>

definition user_with :: "string \<Rightarrow> int \<Rightarrow> decimal \<Rightarrow> decimal \<Rightarrow> int \<Rightarrow> User" where
  "user_with ident eco water carbon items =
     \<lparr>u_id = ident, u_ecoPoints = Some eco, u_waterSaved = Some water,
      u_carbonReduced = Some carbon, u_itemsReused = Some items\<rparr>"

definition post_of :: "string \<Rightarrow> int \<Rightarrow> decimal \<Rightarrow> decimal \<Rightarrow> InsertPost" where
  "post_of ident eco water carbon =
     \<lparr>ip_userId = ident, ip_waterSaved = Value water, ip_carbonReduced = Value carbon,
      ip_ecoPoints = Value eco\<rparr>"

definition seeded_store :: "User list \<Rightarrow> db" where
  "seeded_store us = initializeBadges \<lparr>users = us, posts = [], badges = [], userBadges = []\<rparr>"

definition stored_posts :: "string \<Rightarrow> int \<Rightarrow> nat \<Rightarrow> Post list" where
  "stored_posts ident likes n =
     map (\<lambda>i. \<lparr>p_id = i, p_userId = ident, p_waterSaved = Some (Decimal 250 2),
               p_carbonReduced = Some (Decimal 120 2), p_ecoPoints = Some 50,
               p_likesCount = Some likes\<rparr>) [1..<Suc n]"

section \<open>Properties of the badge evaluator\<close>

subsection \<open>What the evaluator inserts\<close>

lemma foldr_max_upper: "x \<in> set ids \<Longrightarrow> x \<le> foldr max ids (0::nat)"
  by (induction ids) auto

lemma fresh_id_notin: "fresh_id ids \<notin> set ids"
proof
  assume "fresh_id ids \<in> set ids"
  then have "fresh_id ids \<le> foldr max ids 0" by (rule foldr_max_upper)
  then show False by (simp add: fresh_id_def)
qed

lemma award_loop_users [simp]: "users (award_loop u usr ps names bs d) = users d"
  by (induction bs arbitrary: d) (simp_all add: insert_userBadge_def)

lemma award_loop_posts [simp]: "posts (award_loop u usr ps names bs d) = posts d"
  by (induction bs arbitrary: d) (simp_all add: insert_userBadge_def)

lemma award_loop_badges [simp]: "badges (award_loop u usr ps names bs d) = badges d"
  by (induction bs arbitrary: d) (simp_all add: insert_userBadge_def)

lemma award_keys_insert:
  "award_keys (insert_userBadge u b d) = award_keys d @ [(u, b)]"
  by (simp add: award_keys_def insert_userBadge_def)

lemma award_loop_keys:
  "award_keys (award_loop u usr ps names bs d) =
     award_keys d @
     map (\<lambda>b. (u, b_id b))
       (filter (\<lambda>b. b_name b \<notin> set names \<and> shouldAward (b_requirement b) usr ps) bs)"
  by (induction bs arbitrary: d) (simp_all add: award_keys_insert)

lemma award_loop_noop:
  "list_all (\<lambda>b. b_name b \<in> set names \<or> \<not> shouldAward (b_requirement b) usr ps) bs \<Longrightarrow>
   award_loop u usr ps names bs d = d"
  by (induction bs arbitrary: d) auto

lemma checkAndAwardBadges_users [simp]: "users (checkAndAwardBadges u d) = users d"
  by (simp add: checkAndAwardBadges_def Let_def split: option.split)

lemma checkAndAwardBadges_posts [simp]: "posts (checkAndAwardBadges u d) = posts d"
  by (simp add: checkAndAwardBadges_def Let_def split: option.split)

lemma checkAndAwardBadges_badges [simp]: "badges (checkAndAwardBadges u d) = badges d"
  by (simp add: checkAndAwardBadges_def Let_def split: option.split)

lemma getUser_checkAndAwardBadges [simp]:
  "getUser v (checkAndAwardBadges u d) = getUser v d"
  by (simp add: getUser_def)

lemma getPostsByUser_checkAndAwardBadges [simp]:
  "getPostsByUser v (checkAndAwardBadges u d) = getPostsByUser v d"
  by (simp add: getPostsByUser_def)

lemma set_getUserBadges:
  "set (getUserBadges u d) = {b \<in> set (badges d). (u, b_id b) \<in> set (award_keys d)}"
  by (auto simp: getUserBadges_def award_keys_def)

text \<open>The rows the evaluator awards to a user.\<close>

lemma checkAndAwardBadges_keys:
  "getUser u d = Some usr \<Longrightarrow>
   award_keys (checkAndAwardBadges u d) =
     award_keys d @
     map (\<lambda>b. (u, b_id b))
       (filter (\<lambda>b. b_name b \<notin> b_name ` set (getUserBadges u d) \<and>
                     shouldAward (b_requirement b) usr (getPostsByUser u d)) (badges d))"
  by (simp add: checkAndAwardBadges_def Let_def award_loop_keys)

lemma checkAndAwardBadges_absent: "getUser u d = None \<Longrightarrow> checkAndAwardBadges u d = d"
  by (simp add: checkAndAwardBadges_def)

subsection \<open>Idempotent evaluation\<close>

text \<open>
  Claim C3. Running \<^verbatim>\<open>checkAndAwardBadges\<close> twice in a row for the same user, with
  nothing in between, leaves the store as the first run left it: the second run inserts
  no award row. This holds for every store and every user id.
\<close>

theorem evaluator_idempotent:
  "checkAndAwardBadges u (checkAndAwardBadges u d) = checkAndAwardBadges u d"
proof (cases "getUser u d")
  case None
  then show ?thesis by (simp add: checkAndAwardBadges_absent)
next
  case (Some usr)
  let ?d1 = "checkAndAwardBadges u d"
  let ?ps = "getPostsByUser u d"
  have keys: "award_keys ?d1 =
     award_keys d @
     map (\<lambda>b. (u, b_id b))
       (filter (\<lambda>b. b_name b \<notin> b_name ` set (getUserBadges u d) \<and>
                     shouldAward (b_requirement b) usr ?ps) (badges d))"
    using Some by (rule checkAndAwardBadges_keys)
  have held: "b_name b \<in> b_name ` set (getUserBadges u ?d1)"
    if b: "b \<in> set (badges d)" and award: "shouldAward (b_requirement b) usr ?ps" for b
  proof (cases "b_name b \<in> b_name ` set (getUserBadges u d)")
    case False
    with award b have "(u, b_id b) \<in> set (award_keys ?d1)"
      unfolding keys by auto
    with b have "b \<in> set (getUserBadges u ?d1)"
      by (simp add: set_getUserBadges)
    then show ?thesis by blast
  next
    case True
    then obtain c where c: "c \<in> set (getUserBadges u d)" "b_name c = b_name b"
      by auto
    then have "c \<in> set (getUserBadges u ?d1)"
      unfolding set_getUserBadges keys by auto
    with c(2) show ?thesis by (metis imageI)
  qed
  have "list_all (\<lambda>b. b_name b \<in> set (map b_name (getUserBadges u ?d1)) \<or>
                      \<not> shouldAward (b_requirement b) usr ?ps) (badges d)"
    unfolding list_all_iff using held by auto
  then have "award_loop u usr ?ps (map b_name (getUserBadges u ?d1)) (badges d) ?d1 = ?d1"
    by (rule award_loop_noop)
  moreover have "getUser u ?d1 = Some usr"
    using Some by simp
  ultimately show ?thesis
    by (simp add: checkAndAwardBadges_def [of u ?d1] Let_def)
qed


theorem evaluator_idempotent_witness:
  "award_keys (checkAndAwardBadges ''u1''
      (seeded_store [user_with ''u1'' 1010 (Decimal 250 2) (Decimal 120 2) 1])) = [(''u1'', 2)] \<and>
   checkAndAwardBadges ''u1'' (checkAndAwardBadges ''u1''
      (seeded_store [user_with ''u1'' 1010 (Decimal 250 2) (Decimal 120 2) 1])) =
   checkAndAwardBadges ''u1''
      (seeded_store [user_with ''u1'' 1010 (Decimal 250 2) (Decimal 120 2) 1])"
proof -
  let ?d = "seeded_store [user_with ''u1'' 1010 (Decimal 250 2) (Decimal 120 2) 1]"
  have "award_keys (checkAndAwardBadges ''u1'' ?d) = [(''u1'', 2)]" by code_simp
  with evaluator_idempotent [of "''u1''" ?d] show ?thesis by simp
qed

subsection \<open>At most one award per user and badge\<close>

lemma length_filter_count_list:
  "length (filter (\<lambda>x. f x = u \<and> g x = b) xs) = count_list (map (\<lambda>x. (f x, g x)) xs) (u, b)"
  by (induction xs) auto

lemma award_count_keys: "award_count u b d = count_list (award_keys d) (u, b)"
  unfolding award_count_def award_keys_def by (rule length_filter_count_list)

lemma distinct_count_list_le_1: "distinct xs \<Longrightarrow> count_list xs x \<le> 1"
  by (induction xs) auto

lemma distinct_new_keys:
  assumes "distinct (map b_id bs)"
  shows "distinct (map (\<lambda>b. (u, b_id b)) (filter P bs))"
proof -
  have "distinct (map b_id (filter P bs))"
    using assms by (rule distinct_map_filter)
  then have "distinct (map (Pair u) (map b_id (filter P bs)))"
    by (simp add: distinct_map inj_on_def)
  then show ?thesis by (simp add: comp_def)
qed

text \<open>One evaluation keeps the award pairs distinct.\<close>

lemma checkAndAwardBadges_distinct:
  assumes ids: "distinct (map b_id (badges d))"
    and one: "distinct (award_keys d)"
  shows "distinct (award_keys (checkAndAwardBadges u d))"
proof (cases "getUser u d")
  case None
  then show ?thesis using one by (simp add: checkAndAwardBadges_absent)
next
  case (Some usr)
  let ?P = "\<lambda>b. b_name b \<notin> b_name ` set (getUserBadges u d) \<and>
                   shouldAward (b_requirement b) usr (getPostsByUser u d)"
  let ?new = "map (\<lambda>b. (u, b_id b)) (filter ?P (badges d))"
  have keys: "award_keys (checkAndAwardBadges u d) = award_keys d @ ?new"
    using Some by (rule checkAndAwardBadges_keys)
  have new: "distinct ?new"
    using ids by (rule distinct_new_keys)
  have "set (award_keys d) \<inter> set ?new = {}"
  proof (rule ccontr)
    assume "set (award_keys d) \<inter> set ?new \<noteq> {}"
    then obtain k where k: "k \<in> set (award_keys d)" "k \<in> set ?new" by blast
    then obtain r where r: "r \<in> set (badges d)" "?P r" "k = (u, b_id r)"
      by auto
    with k(1) have "r \<in> set (getUserBadges u d)" by (simp add: set_getUserBadges)
    with r(2) show False by blast
  qed
  with new one show ?thesis
    unfolding keys by simp
qed

text \<open>The other steps of an operation leave the award table alone.\<close>

lemma insert_post_tables:
  "insert_post post d = Inr (newPost, d1) \<Longrightarrow>
   users d1 = users d \<and> badges d1 = badges d \<and> userBadges d1 = userBadges d \<and>
   posts d1 = posts d @ [newPost]"
  by (auto simp: insert_post_def Let_def split: sum.splits if_splits)

lemma updateUserStats_tables:
  "updateUserStats u st d = Inr d1 \<Longrightarrow>
   posts d1 = posts d \<and> badges d1 = badges d \<and> userBadges d1 = userBadges d"
  by (auto simp: updateUserStats_def split: sum.splits)

lemma award_keys_cong: "userBadges d1 = userBadges d \<Longrightarrow> award_keys d1 = award_keys d"
  by (simp add: award_keys_def)

lemma update_stats_for_post_distinct:
  assumes "update_stats_for_post post d = Inr d2"
    and "distinct (map b_id (badges d))" and "distinct (award_keys d)"
  shows "badges d2 = badges d \<and> distinct (award_keys d2)"
proof (cases "getUser (ip_userId post) d")
  case None
  with assms show ?thesis by (simp add: update_stats_for_post_def)
next
  case (Some currentUser)
  with assms(1) obtain st d1 where
    d1: "updateUserStats (ip_userId post) st d = Inr d1"
    and d2: "d2 = checkAndAwardBadges (ip_userId post) d1"
    by (auto simp: update_stats_for_post_def Let_def split: sum.splits)
  from d1 have t: "badges d1 = badges d" "award_keys d1 = award_keys d"
    by (auto dest: updateUserStats_tables intro: award_keys_cong)
  with assms(2,3) show ?thesis
    unfolding d2 by (simp add: checkAndAwardBadges_distinct)
qed

lemma createPost_distinct:
  assumes "distinct (map b_id (badges d))" and "distinct (award_keys d)"
  shows "badges (snd (createPost post d)) = badges d \<and>
         distinct (award_keys (snd (createPost post d)))"
proof (cases "insert_post post d")
  case (Inl e)
  with assms show ?thesis by (simp add: createPost_def)
next
  case (Inr r)
  obtain newPost d1 where r: "r = (newPost, d1)" by (cases r)
  with Inr have t: "badges d1 = badges d" "award_keys d1 = award_keys d"
    by (auto dest: insert_post_tables intro: award_keys_cong)
  show ?thesis
  proof (cases "update_stats_for_post post d1")
    case (Inl e)
    with Inr r t assms show ?thesis by (simp add: createPost_def)
  next
    case (Inr d2)
    with t assms have "badges d2 = badges d1 \<and> distinct (award_keys d2)"
      by (simp add: update_stats_for_post_distinct)
    with Inr \<open>insert_post post d = Inr r\<close> r t show ?thesis
      by (simp add: createPost_def)
  qed
qed

lemma seeded_ids: "map b_id (foldl insert_badge [] defaultBadges) = [1, 2, 3, 4, 5, 6]"
  by (simp add: defaultBadges_def insert_badge_def fresh_id_def)

lemma initializeBadges_distinct:
  assumes "distinct (map b_id (badges d))" and "distinct (award_keys d)"
  shows "distinct (map b_id (badges (initializeBadges d))) \<and>
         distinct (award_keys (initializeBadges d))"
  using assms by (simp add: initializeBadges_def Let_def seeded_ids award_keys_def)

lemma run_operation_distinct:
  assumes "distinct (map b_id (badges d))" and "distinct (award_keys d)"
  shows "distinct (map b_id (badges (run_operation d operation))) \<and>
         distinct (award_keys (run_operation d operation))"
proof (cases operation)
  case (CreatePost post)
  with createPost_distinct [OF assms, of post] assms(1) show ?thesis by simp
next
  case (CheckAndAwardBadges u)
  with assms show ?thesis by (simp add: checkAndAwardBadges_distinct)
next
  case InitializeBadges
  with initializeBadges_distinct [OF assms] show ?thesis by simp
qed

lemma run_operations_distinct:
  "distinct (map b_id (badges d)) \<Longrightarrow> distinct (award_keys d) \<Longrightarrow>
   distinct (map b_id (badges (run_operations ops d))) \<and>
   distinct (award_keys (run_operations ops d))"
  unfolding run_operations_def
proof (induction ops arbitrary: d)
  case Nil
  then show ?case by simp
next
  case (Cons operation ops)
  from run_operation_distinct [OF Cons.prems, of operation] Cons.IH
  show ?case by simp
qed

text \<open>
  Claim C2. In a store whose catalog rows have distinct ids (the primary key of
  \<^verbatim>\<open>badges\<close>) and whose award table holds no (user, badge) pair twice, the award table
  holds no pair twice after any sequence of post creations, badge evaluations and catalog
  initialisations: the number of award rows of every (user, badge) pair stays at most one.
\<close>

theorem at_most_one_award:
  assumes "distinct (map b_id (badges d))" and "distinct (award_keys d)"
  shows "distinct (award_keys (run_operations ops d)) \<and>
         award_count u b (run_operations ops d) \<le> 1"
proof -
  have keys: "distinct (award_keys (run_operations ops d))"
    using run_operations_distinct [OF assms, of ops] by simp
  then have "count_list (award_keys (run_operations ops d)) (u, b) \<le> 1"
    by (rule distinct_count_list_le_1)
  with keys show ?thesis by (simp add: award_count_keys)
qed



theorem at_most_one_award_witness:
  "distinct (map b_id (badges (seeded_store [user_with ''u1'' 960 (Decimal 0 2) (Decimal 0 2) 19]))) \<and>
   distinct (award_keys (seeded_store [user_with ''u1'' 960 (Decimal 0 2) (Decimal 0 2) 19])) \<and>
   award_keys (run_operations [CreatePost (post_of ''u1'' 50 (Decimal 25 1) (Decimal 12 1))]
      (seeded_store [user_with ''u1'' 960 (Decimal 0 2) (Decimal 0 2) 19])) = [(''u1'', 2)] \<and>
   award_keys (run_operations
      [CreatePost (post_of ''u1'' 50 (Decimal 25 1) (Decimal 12 1)),
       CreatePost (post_of ''u1'' 50 (Decimal 25 1) (Decimal 12 1)),
       CheckAndAwardBadges ''u1'']
      (seeded_store [user_with ''u1'' 960 (Decimal 0 2) (Decimal 0 2) 19])) = [(''u1'', 2)] \<and>
   award_count ''u1'' 2 (run_operations
      [CreatePost (post_of ''u1'' 50 (Decimal 25 1) (Decimal 12 1)),
       CreatePost (post_of ''u1'' 50 (Decimal 25 1) (Decimal 12 1)),
       CheckAndAwardBadges ''u1'']
      (seeded_store [user_with ''u1'' 960 (Decimal 0 2) (Decimal 0 2) 19])) \<le> 1"
proof -
  let ?d = "seeded_store [user_with ''u1'' 960 (Decimal 0 2) (Decimal 0 2) 19]"
  let ?p = "post_of ''u1'' 50 (Decimal 25 1) (Decimal 12 1)"
  have h1: "distinct (map b_id (badges ?d))" by code_simp
  have h2: "distinct (award_keys ?d)" by code_simp
  have k1: "award_keys (run_operations [CreatePost ?p] ?d) = [(''u1'', 2)]" by code_simp
  have k2: "award_keys (run_operations [CreatePost ?p, CreatePost ?p, CheckAndAwardBadges ''u1''] ?d)
      = [(''u1'', 2)]" by code_simp
  from at_most_one_award [OF h1 h2,
      of "[CreatePost ?p, CreatePost ?p, CheckAndAwardBadges ''u1'']" "''u1''" 2]
  have "award_count ''u1'' 2
      (run_operations [CreatePost ?p, CreatePost ?p, CheckAndAwardBadges ''u1''] ?d) \<le> 1"
    by (rule conjunct2)
  with h1 h2 k1 k2 show ?thesis by simp
qed

subsection \<open>Which rows are awarded\<close>

lemma distinct_map_eq: "distinct (map f xs) \<Longrightarrow> x \<in> set xs \<Longrightarrow> y \<in> set xs \<Longrightarrow> f x = f y \<Longrightarrow> x = y"
  by (meson distinct_map inj_onD)

text \<open>A catalog row the user does not hold by name is awarded iff its predicate holds.\<close>

lemma awarded_iff:
  assumes usr: "getUser u d = Some usr"
    and ids: "distinct (map b_id (badges d))"
    and badge: "badge \<in> set (badges d)"
    and new: "b_name badge \<notin> b_name ` set (getUserBadges u d)"
  shows "(u, b_id badge) \<in> set (award_keys (checkAndAwardBadges u d)) \<longleftrightarrow>
         shouldAward (b_requirement badge) usr (getPostsByUser u d)"
proof -
  have old: "(u, b_id badge) \<notin> set (award_keys d)"
  proof
    assume "(u, b_id badge) \<in> set (award_keys d)"
    with badge have "badge \<in> set (getUserBadges u d)" by (simp add: set_getUserBadges)
    with new show False by blast
  qed
  show ?thesis
  proof
    assume "(u, b_id badge) \<in> set (award_keys (checkAndAwardBadges u d))"
    with old obtain r where r: "r \<in> set (badges d)" "b_id r = b_id badge"
      "shouldAward (b_requirement r) usr (getPostsByUser u d)"
      unfolding checkAndAwardBadges_keys [OF usr] by auto
    from ids r(1) badge r(2) have "r = badge" by (rule distinct_map_eq)
    with r(3) show "shouldAward (b_requirement badge) usr (getPostsByUser u d)" by simp
  next
    assume "shouldAward (b_requirement badge) usr (getPostsByUser u d)"
    with badge new show "(u, b_id badge) \<in> set (award_keys (checkAndAwardBadges u d))"
      unfolding checkAndAwardBadges_keys [OF usr] by auto
  qed
qed

text \<open>A catalog row whose predicate fails gets no new award row.\<close>

lemma not_awarded:
  assumes ids: "distinct (map b_id (badges d))"
    and badge: "badge \<in> set (badges d)"
    and no: "\<And>usr. getUser u d = Some usr \<Longrightarrow>
               \<not> shouldAward (b_requirement badge) usr (getPostsByUser u d)"
  shows "award_count v (b_id badge) (checkAndAwardBadges u d) = award_count v (b_id badge) d"
proof (cases "getUser u d")
  case None
  then show ?thesis by (simp add: checkAndAwardBadges_absent)
next
  case (Some usr)
  let ?P = "\<lambda>b. b_name b \<notin> b_name ` set (getUserBadges u d) \<and>
                   shouldAward (b_requirement b) usr (getPostsByUser u d)"
  have "(v, b_id badge) \<notin> set (map (\<lambda>b. (u, b_id b)) (filter ?P (badges d)))"
  proof
    assume "(v, b_id badge) \<in> set (map (\<lambda>b. (u, b_id b)) (filter ?P (badges d)))"
    then obtain r where r: "r \<in> set (badges d)" "b_id r = b_id badge" "?P r" by auto
    from ids r(1) badge r(2) have "r = badge" by (rule distinct_map_eq)
    with r(3) no [OF Some] show False by simp
  qed
  then show ?thesis
    unfolding award_count_keys checkAndAwardBadges_keys [OF Some] count_list_append
    by (simp add: count_list_0_iff)
qed

lemma shouldAward_unrecognized:
  "requirement \<notin> Some ` set recognized_requirements \<Longrightarrow> \<not> shouldAward requirement usr ps"
  by (simp add: shouldAward_def recognized_requirements_def)




subsection \<open>The threshold of 50 posts\<close>

text \<open>
  Claim C8. The predicate \<^verbatim>\<open>posts_count_50\<close> holds iff the user has at least 50 posts.
  In the evaluator: for an existing user and a catalog row with this requirement whose
  name the user does not hold yet (catalog ids distinct), the run of
  \<^verbatim>\<open>checkAndAwardBadges\<close> leaves an award row of that user and badge iff the user has at
  least 50 posts. So exactly 50 posts qualify and 49 do not.
\<close>

theorem posts_count_50_threshold:
  "(shouldAward (Some ''posts_count_50'') usr userPosts \<longleftrightarrow> 50 \<le> length userPosts) \<and>
   (getUser u d = Some usr \<and> distinct (map b_id (badges d)) \<and> badge \<in> set (badges d) \<and>
    b_requirement badge = Some ''posts_count_50'' \<and>
    b_name badge \<notin> b_name ` set (getUserBadges u d) \<longrightarrow>
      ((u, b_id badge) \<in> set (award_keys (checkAndAwardBadges u d)) \<longleftrightarrow>
         50 \<le> length (getPostsByUser u d)))"
proof (intro conjI impI)
  show "shouldAward (Some ''posts_count_50'') usr userPosts \<longleftrightarrow> 50 \<le> length userPosts"
    by (simp add: shouldAward_def)
next
  assume h: "getUser u d = Some usr \<and> distinct (map b_id (badges d)) \<and>
    badge \<in> set (badges d) \<and> b_requirement badge = Some ''posts_count_50'' \<and>
    b_name badge \<notin> b_name ` set (getUserBadges u d)"
  then have "(u, b_id badge) \<in> set (award_keys (checkAndAwardBadges u d)) \<longleftrightarrow>
      shouldAward (b_requirement badge) usr (getPostsByUser u d)"
    by (intro awarded_iff) simp_all
  with h show "(u, b_id badge) \<in> set (award_keys (checkAndAwardBadges u d)) \<longleftrightarrow>
      50 \<le> length (getPostsByUser u d)"
    by (simp add: shouldAward_def)
qed

theorem posts_count_50_threshold_witness:
  "length (getPostsByUser ''u1''
      ((seeded_store [user_with ''u1'' 2500 (Decimal 12500 2) (Decimal 6000 2) 50])
         \<lparr>posts := stored_posts ''u1'' 0 50\<rparr>)) = 50 \<and>
   (''u1'', 1) \<in> set (award_keys (checkAndAwardBadges ''u1''
       ((seeded_store [user_with ''u1'' 2500 (Decimal 12500 2) (Decimal 6000 2) 50])
          \<lparr>posts := stored_posts ''u1'' 0 50\<rparr>))) \<and>
   length (getPostsByUser ''u1''
      ((seeded_store [user_with ''u1'' 2450 (Decimal 12250 2) (Decimal 5880 2) 49])
         \<lparr>posts := stored_posts ''u1'' 0 49\<rparr>)) = 49 \<and>
   (''u1'', 1) \<notin> set (award_keys (checkAndAwardBadges ''u1''
       ((seeded_store [user_with ''u1'' 2450 (Decimal 12250 2) (Decimal 5880 2) 49])
          \<lparr>posts := stored_posts ''u1'' 0 49\<rparr>)))"
proof -
  let ?u50 = "user_with ''u1'' 2500 (Decimal 12500 2) (Decimal 6000 2) 50"
  let ?u49 = "user_with ''u1'' 2450 (Decimal 12250 2) (Decimal 5880 2) 49"
  let ?d50 = "(seeded_store [?u50])\<lparr>posts := stored_posts ''u1'' 0 50\<rparr>"
  let ?d49 = "(seeded_store [?u49])\<lparr>posts := stored_posts ''u1'' 0 49\<rparr>"
  let ?b = "hd (badges (seeded_store []))"
  have h50: "getUser ''u1'' ?d50 = Some ?u50 \<and> distinct (map b_id (badges ?d50)) \<and>
      ?b \<in> set (badges ?d50) \<and> b_requirement ?b = Some ''posts_count_50'' \<and>
      b_name ?b \<notin> b_name ` set (getUserBadges ''u1'' ?d50)"
    by code_simp
  have h49: "getUser ''u1'' ?d49 = Some ?u49 \<and> distinct (map b_id (badges ?d49)) \<and>
      ?b \<in> set (badges ?d49) \<and> b_requirement ?b = Some ''posts_count_50'' \<and>
      b_name ?b \<notin> b_name ` set (getUserBadges ''u1'' ?d49)"
    by code_simp
  have n50: "length (getPostsByUser ''u1'' ?d50) = 50" by code_simp
  have n49: "length (getPostsByUser ''u1'' ?d49) = 49" by code_simp
  have id: "b_id ?b = 1" by code_simp
  from posts_count_50_threshold [of ?u50 "[]" "''u1''" ?d50 ?b] h50 n50 id
  have a: "(''u1'', 1) \<in> set (award_keys (checkAndAwardBadges ''u1'' ?d50))" by simp
  from posts_count_50_threshold [of ?u49 "[]" "''u1''" ?d49 ?b] h49 n49 id
  have b: "(''u1'', 1) \<notin> set (award_keys (checkAndAwardBadges ''u1'' ?d49))" by simp
  from a b n50 n49 show ?thesis by simp
qed

subsection \<open>The average of likes\<close>



subsection \<open>Requirements without a case\<close>

text \<open>
  Claim C10. A requirement that is none of the six identifiers of the \<^verbatim>\<open>switch\<close> (an
  unknown text, or \<^verbatim>\<open>null\<close>) leaves \<^verbatim>\<open>shouldAward\<close> false for every user and every
  post history, and a run of \<^verbatim>\<open>checkAndAwardBadges\<close> for any user adds no award row
  for a catalog row with such a requirement (catalog ids distinct).
\<close>

theorem unrecognized_requirement_never_awarded:
  "(requirement \<notin> Some ` set recognized_requirements \<longrightarrow>
      \<not> shouldAward requirement usr userPosts) \<and>
   (distinct (map b_id (badges d)) \<and> badge \<in> set (badges d) \<and>
    b_requirement badge \<notin> Some ` set recognized_requirements \<longrightarrow>
      award_count v (b_id badge) (checkAndAwardBadges u d) = award_count v (b_id badge) d)"
proof (intro conjI impI)
  show "\<not> shouldAward requirement usr userPosts"
    if "requirement \<notin> Some ` set recognized_requirements"
    using that by (rule shouldAward_unrecognized)
  show "award_count v (b_id badge) (checkAndAwardBadges u d) = award_count v (b_id badge) d"
    if h: "distinct (map b_id (badges d)) \<and> badge \<in> set (badges d) \<and>
      b_requirement badge \<notin> Some ` set recognized_requirements"
  proof (rule not_awarded)
    show "distinct (map b_id (badges d))" and "badge \<in> set (badges d)"
      using h by simp_all
    show "\<not> shouldAward (b_requirement badge) usr (getPostsByUser u d)" for usr
      using h by (simp add: shouldAward_unrecognized)
  qed
qed

theorem unrecognized_requirement_never_awarded_witness:
  "\<not> shouldAward (Some ''joined_first_year'')
       (user_with ''u1'' 6000 (Decimal 30000 2) (Decimal 14400 2) 120) (stored_posts ''u1'' 500 120) \<and>
   \<not> shouldAward None
       (user_with ''u1'' 6000 (Decimal 30000 2) (Decimal 14400 2) 120) (stored_posts ''u1'' 500 120) \<and>
   award_keys (checkAndAwardBadges ''u1''
     ((seeded_store [user_with ''u1'' 6000 (Decimal 30000 2) (Decimal 14400 2) 120])
        \<lparr>posts := stored_posts ''u1'' 500 120,
         badges := badges (seeded_store []) @
           [\<lparr>b_id = 7, b_name = ''Early Bird'', b_description = None, b_icon = None,
              b_requirement = Some ''joined_first_year''\<rparr>,
            \<lparr>b_id = 8, b_name = ''Mystery'', b_description = None, b_icon = None,
              b_requirement = None\<rparr>]\<rparr>)) =
     [(''u1'', 1), (''u1'', 2), (''u1'', 3), (''u1'', 4), (''u1'', 5), (''u1'', 6)] \<and>
   award_count ''u1'' 7 (checkAndAwardBadges ''u1''
     ((seeded_store [user_with ''u1'' 6000 (Decimal 30000 2) (Decimal 14400 2) 120])
        \<lparr>posts := stored_posts ''u1'' 500 120,
         badges := badges (seeded_store []) @
           [\<lparr>b_id = 7, b_name = ''Early Bird'', b_description = None, b_icon = None,
              b_requirement = Some ''joined_first_year''\<rparr>,
            \<lparr>b_id = 8, b_name = ''Mystery'', b_description = None, b_icon = None,
              b_requirement = None\<rparr>]\<rparr>)) = 0 \<and>
   award_count ''u1'' 8 (checkAndAwardBadges ''u1''
     ((seeded_store [user_with ''u1'' 6000 (Decimal 30000 2) (Decimal 14400 2) 120])
        \<lparr>posts := stored_posts ''u1'' 500 120,
         badges := badges (seeded_store []) @
           [\<lparr>b_id = 7, b_name = ''Early Bird'', b_description = None, b_icon = None,
              b_requirement = Some ''joined_first_year''\<rparr>,
            \<lparr>b_id = 8, b_name = ''Mystery'', b_description = None, b_icon = None,
              b_requirement = None\<rparr>]\<rparr>)) = 0"
proof -
  let ?usr = "user_with ''u1'' 6000 (Decimal 30000 2) (Decimal 14400 2) 120"
  let ?b7 = "\<lparr>b_id = 7, b_name = ''Early Bird'', b_description = None, b_icon = None,
              b_requirement = Some ''joined_first_year''\<rparr>"
  let ?b8 = "\<lparr>b_id = 8, b_name = ''Mystery'', b_description = None, b_icon = None,
              b_requirement = None\<rparr>"
  let ?d = "(seeded_store [?usr])
        \<lparr>posts := stored_posts ''u1'' 500 120,
         badges := badges (seeded_store []) @ [?b7, ?b8]\<rparr>"
  have r7: "Some ''joined_first_year'' \<notin> Some ` set recognized_requirements"
    and r8: "None \<notin> Some ` set recognized_requirements"
    by code_simp+
  have h7: "distinct (map b_id (badges ?d)) \<and> ?b7 \<in> set (badges ?d) \<and>
      b_requirement ?b7 \<notin> Some ` set recognized_requirements"
    by code_simp
  have h8: "distinct (map b_id (badges ?d)) \<and> ?b8 \<in> set (badges ?d) \<and>
      b_requirement ?b8 \<notin> Some ` set recognized_requirements"
    by code_simp
  have old: "award_count ''u1'' 7 ?d = 0" "award_count ''u1'' 8 ?d = 0" by code_simp+
  have keys: "award_keys (checkAndAwardBadges ''u1'' ?d) =
     [(''u1'', 1), (''u1'', 2), (''u1'', 3), (''u1'', 4), (''u1'', 5), (''u1'', 6)]"
    by code_simp
  from unrecognized_requirement_never_awarded
         [of "Some ''joined_first_year''" ?usr "stored_posts ''u1'' 500 120" ?d ?b7 "''u1''" "''u1''"]
       r7 h7 old
  have a: "\<not> shouldAward (Some ''joined_first_year'') ?usr (stored_posts ''u1'' 500 120)"
    and c: "award_count ''u1'' 7 (checkAndAwardBadges ''u1'' ?d) = 0"
    by simp_all
  from unrecognized_requirement_never_awarded
         [of None ?usr "stored_posts ''u1'' 500 120" ?d ?b8 "''u1''" "''u1''"]
       r8 h8 old
  have b: "\<not> shouldAward None ?usr (stored_posts ''u1'' 500 120)"
    and e: "award_count ''u1'' 8 (checkAndAwardBadges ''u1'' ?d) = 0"
    by simp_all
  from a b c e keys show ?thesis by simp
qed


section \<open>Seeding the catalog\<close>

lemma seeded_catalog:
  "foldl insert_badge [] defaultBadges =
     map (\<lambda>(i, name, description, icon, requirement).
            \<lparr>b_id = i, b_name = name, b_description = Some description, b_icon = Some icon,
             b_requirement = Some requirement\<rparr>)
         (zip [1, 2, 3, 4, 5, 6] defaultBadges)"
  by (simp add: defaultBadges_def insert_badge_def fresh_id_def)

text \<open>
  Claim C9. On an empty catalog \<^verbatim>\<open>initializeBadges\<close> inserts exactly the six default
  rows (their requirements are the six recognized identifiers), on a non-empty catalog it
  changes nothing, it touches no other table, and a second run right after the first
  inserts nothing.
\<close>

theorem initializeBadges_seeds_once:
  "(badges d = [] \<longrightarrow>
      map (\<lambda>b. (b_name b, b_requirement b)) (badges (initializeBadges d)) =
        [(''Eco Star'', Some ''posts_count_50''), (''Green Icon'', Some ''eco_points_1000''),
         (''Water Saver'', Some ''water_saved_200''), (''Trendsetter'', Some ''likes_average_100''),
         (''Thrift Champion'', Some ''posts_count_100''),
         (''Planet Protector'', Some ''carbon_reduced_100'')] \<and>
      length (badges (initializeBadges d)) = 6 \<and>
      set (map b_requirement (badges (initializeBadges d))) = Some ` set recognized_requirements \<and>
      distinct (map b_id (badges (initializeBadges d)))) \<and>
   (badges d \<noteq> [] \<longrightarrow> initializeBadges d = d) \<and>
   users (initializeBadges d) = users d \<and> posts (initializeBadges d) = posts d \<and>
   userBadges (initializeBadges d) = userBadges d \<and>
   initializeBadges (initializeBadges d) = initializeBadges d"
proof (intro conjI impI)
  assume e: "badges d = []"
  then have b: "badges (initializeBadges d) = foldl insert_badge [] defaultBadges"
    by (simp add: initializeBadges_def)
  show "map (\<lambda>b. (b_name b, b_requirement b)) (badges (initializeBadges d)) =
        [(''Eco Star'', Some ''posts_count_50''), (''Green Icon'', Some ''eco_points_1000''),
         (''Water Saver'', Some ''water_saved_200''), (''Trendsetter'', Some ''likes_average_100''),
         (''Thrift Champion'', Some ''posts_count_100''),
         (''Planet Protector'', Some ''carbon_reduced_100'')]"
    unfolding b seeded_catalog by (simp add: defaultBadges_def)
  show "length (badges (initializeBadges d)) = 6"
    unfolding b seeded_catalog by (simp add: defaultBadges_def)
  show "set (map b_requirement (badges (initializeBadges d))) = Some ` set recognized_requirements"
    unfolding b seeded_catalog by (auto simp add: defaultBadges_def recognized_requirements_def)
  show "distinct (map b_id (badges (initializeBadges d)))"
    unfolding b by (simp add: seeded_ids)
next
  assume "badges d \<noteq> []"
  then show "initializeBadges d = d" by (simp add: initializeBadges_def)
next
  show "users (initializeBadges d) = users d" by (simp add: initializeBadges_def)
  show "posts (initializeBadges d) = posts d" by (simp add: initializeBadges_def)
  show "userBadges (initializeBadges d) = userBadges d" by (simp add: initializeBadges_def)
  show "initializeBadges (initializeBadges d) = initializeBadges d"
  proof (cases "badges d = []")
    case True
    then have "badges (initializeBadges d) \<noteq> []"
      by (simp add: initializeBadges_def defaultBadges_def insert_badge_def)
    then show ?thesis by (simp add: initializeBadges_def [of "initializeBadges d"])
  next
    case False
    then show ?thesis by (simp add: initializeBadges_def)
  qed
qed


theorem initializeBadges_seeds_once_witness:
  "badges \<lparr>users = [], posts = [], badges = [], userBadges = []\<rparr> = [] \<and>
   map b_requirement
     (badges (initializeBadges \<lparr>users = [], posts = [], badges = [], userBadges = []\<rparr>)) =
     [Some ''posts_count_50'', Some ''eco_points_1000'', Some ''water_saved_200'',
      Some ''likes_average_100'', Some ''posts_count_100'', Some ''carbon_reduced_100''] \<and>
   badges \<lparr>users = [], posts = [],
           badges = [\<lparr>b_id = 9, b_name = ''Eco Star'', b_description = None, b_icon = None,
                      b_requirement = Some ''posts_count_50''\<rparr>],
           userBadges = []\<rparr> \<noteq> [] \<and>
   initializeBadges
     \<lparr>users = [], posts = [],
      badges = [\<lparr>b_id = 9, b_name = ''Eco Star'', b_description = None, b_icon = None,
                 b_requirement = Some ''posts_count_50''\<rparr>],
      userBadges = []\<rparr> =
     \<lparr>users = [], posts = [],
      badges = [\<lparr>b_id = 9, b_name = ''Eco Star'', b_description = None, b_icon = None,
                 b_requirement = Some ''posts_count_50''\<rparr>],
      userBadges = []\<rparr>"
proof -
  let ?d0 = "\<lparr>users = [], posts = [], badges = [], userBadges = []\<rparr>"
  let ?d1 = "\<lparr>users = [], posts = [],
      badges = [\<lparr>b_id = 9, b_name = ''Eco Star'', b_description = None, b_icon = None,
                 b_requirement = Some ''posts_count_50''\<rparr>],
      userBadges = []\<rparr>"
  have e: "badges ?d0 = []" and n: "badges ?d1 \<noteq> []" by simp_all
  from initializeBadges_seeds_once [of ?d0] e
  have "map (\<lambda>b. (b_name b, b_requirement b)) (badges (initializeBadges ?d0)) =
        [(''Eco Star'', Some ''posts_count_50''), (''Green Icon'', Some ''eco_points_1000''),
         (''Water Saver'', Some ''water_saved_200''), (''Trendsetter'', Some ''likes_average_100''),
         (''Thrift Champion'', Some ''posts_count_100''),
         (''Planet Protector'', Some ''carbon_reduced_100'')]"
    by blast
  then have "map snd (map (\<lambda>b. (b_name b, b_requirement b)) (badges (initializeBadges ?d0))) =
        [Some ''posts_count_50'', Some ''eco_points_1000'', Some ''water_saved_200'',
         Some ''likes_average_100'', Some ''posts_count_100'', Some ''carbon_reduced_100'']"
    by simp
  then have a: "map b_requirement (badges (initializeBadges ?d0)) =
        [Some ''posts_count_50'', Some ''eco_points_1000'', Some ''water_saved_200'',
         Some ''likes_average_100'', Some ''posts_count_100'', Some ''carbon_reduced_100'']"
    by (simp add: comp_def)
  from initializeBadges_seeds_once [of ?d1] n have b: "initializeBadges ?d1 = ?d1"
    by blast
  from a b e n show ?thesis by simp
qed

section \<open>Properties of the ledger\<close>

subsection \<open>Rounding to the scale of the column\<close>

lemma round_half_away_nonneg: "0 \<le> m \<Longrightarrow> 0 < d \<Longrightarrow> 0 \<le> round_half_away m d"
  by (simp add: round_half_away_def pos_imp_zdiv_nonneg_iff)

lemma round_scale2_nonneg: "0 \<le> unscaled c \<Longrightarrow> 0 \<le> round_scale2 c"
  by (simp add: round_scale2_def round_half_away_nonneg)

lemma round_half_away_shift:
  assumes "0 < d" "0 \<le> h" "0 \<le> m"
  shows "round_half_away (h * d + m) d = h + round_half_away m d"
proof -
  have "0 \<le> h * d + m" using assms by simp
  moreover have "(h * d + m + d div 2) div d = h + (m + d div 2) div d"
    using assms(1) by (simp add: add.assoc)
  ultimately show ?thesis using assms(3) by (simp add: round_half_away_def)
qed

lemma round_scale2_sum:
  assumes "scale t \<le> 2" "0 \<le> unscaled t" "0 \<le> unscaled c"
  shows "round_scale2 (parseFloat_sum t c) = round_scale2 t + round_scale2 c"
proof (cases "scale c \<le> 2")
  case True
  let ?s = "max (scale t) (scale c)"
  have s: "?s \<le> 2" using assms(1) True by simp
  have a: "(10::int) ^ (?s - scale t) * 10 ^ (2 - ?s) = 10 ^ (2 - scale t)"
    using s by (simp add: power_add [symmetric])
  have b: "(10::int) ^ (?s - scale c) * 10 ^ (2 - ?s) = 10 ^ (2 - scale c)"
    using s by (simp add: power_add [symmetric])
  have "round_scale2 (parseFloat_sum t c) =
      (unscaled t * 10 ^ (?s - scale t) + unscaled c * 10 ^ (?s - scale c)) * 10 ^ (2 - ?s)"
    using s by (simp add: round_scale2_def parseFloat_sum_def Let_def)
  also have "\<dots> = unscaled t * (10 ^ (?s - scale t) * 10 ^ (2 - ?s))
                 + unscaled c * (10 ^ (?s - scale c) * 10 ^ (2 - ?s))"
    by (simp add: algebra_simps)
  also have "\<dots> = round_scale2 t + round_scale2 c"
    unfolding a b using assms(1) True by (simp add: round_scale2_def)
  finally show ?thesis .
next
  case False
  then have m: "max (scale t) (scale c) = scale c" using assms(1) by simp
  let ?d = "(10::int) ^ (scale c - 2)"
  have d: "0 < ?d" by simp
  have e: "(10::int) ^ (scale c - scale t) = 10 ^ (2 - scale t) * ?d"
    using assms(1) False by (simp add: power_add [symmetric])
  have h: "0 \<le> unscaled t * 10 ^ (2 - scale t)" using assms(2) by simp
  have "round_scale2 (parseFloat_sum t c) =
      round_half_away (unscaled t * 10 ^ (scale c - scale t) + unscaled c) ?d"
    using False by (simp add: round_scale2_def parseFloat_sum_def Let_def m)
  also have "\<dots> = round_half_away (unscaled t * 10 ^ (2 - scale t) * ?d + unscaled c) ?d"
    unfolding e by (simp add: mult.assoc)
  also have "\<dots> = unscaled t * 10 ^ (2 - scale t) + round_half_away (unscaled c) ?d"
    using d h assms(3) by (rule round_half_away_shift)
  also have "\<dots> = round_scale2 t + round_scale2 c"
    using assms(1) False by (simp add: round_scale2_def)
  finally show ?thesis .
qed

lemma total_sum:
  assumes "stored_total v" "0 \<le> unscaled c"
  shows "round_scale2 (parseFloat_sum (text_or v (Decimal 0 0)) c) =
         round_scale2 (text_or v (Decimal 0 0)) + round_scale2 c"
  using assms by (intro round_scale2_sum) (auto simp: stored_total_def text_or_def split: option.splits)

lemma total_nonneg: "stored_total v \<Longrightarrow> 0 \<le> round_scale2 (text_or v (Decimal 0 0))"
  by (auto simp: stored_total_def text_or_def round_scale2_def split: option.splits)


subsection \<open>One post creation\<close>

lemma find_map_update:
  assumes "\<And>x. k (f x) = k x"
  shows "find (\<lambda>x. k x = i) (map (\<lambda>x. if k x = i then f x else x) xs)
         = map_option f (find (\<lambda>x. k x = i) xs)"
  using assms by (induction xs) auto

lemma integer_col_fits:
  "- 2147483648 \<le> n \<Longrightarrow> n \<le> 2147483647 \<Longrightarrow> integer_col (Some n) = Inr (Some n)"
  by (simp add: integer_col_def)

lemma numeric_col_fits:
  "\<bar>round_scale2 w\<bar> < 10 ^ p \<Longrightarrow> numeric_col p (Some w) = Inr (Some (Decimal (round_scale2 w) 2))"
  by (simp add: numeric_col_def)

lemma integer_col_contribution:
  assumes "0 \<le> contribution_ecoPoints post" "contribution_ecoPoints post \<le> 2147483647"
  shows "\<exists>v. integer_col (column_default (ip_ecoPoints post) 0) = Inr v"
  using assms
  by (cases "ip_ecoPoints post")
     (auto simp: contribution_ecoPoints_def column_default_def defined_def number_or_def
                 integer_col_def split: if_splits)

lemma numeric_col_contribution:
  assumes "0 \<le> unscaled (text_or (defined f) (Decimal 0 0))"
    and "round_scale2 (text_or (defined f) (Decimal 0 0)) < 10 ^ 8"
  shows "\<exists>v. numeric_col 8 (column_default f (Decimal 0 0)) = Inr v"
proof (cases f)
  case (Value w)
  with assms have "0 \<le> round_scale2 w" "round_scale2 w < 10 ^ 8"
    by (simp_all add: defined_def text_or_def round_scale2_nonneg)
  then have "\<bar>round_scale2 w\<bar> < 10 ^ 8" by simp
  with Value show ?thesis by (simp add: column_default_def numeric_col_fits)
qed (simp_all add: column_default_def numeric_col_def round_scale2_def)

lemma insert_post_succeeds:
  assumes "getUser (ip_userId post) d = Some usr"
    and "0 \<le> contribution_ecoPoints post" "contribution_ecoPoints post \<le> 2147483647"
    and "0 \<le> unscaled (contribution_waterSaved post)"
    and "round_scale2 (contribution_waterSaved post) < 10 ^ 8"
    and "0 \<le> unscaled (contribution_carbonReduced post)"
    and "round_scale2 (contribution_carbonReduced post) < 10 ^ 8"
  shows "\<exists>newPost. insert_post post d = Inr (newPost, d\<lparr>posts := posts d @ [newPost]\<rparr>) \<and>
           p_userId newPost = ip_userId post \<and> p_likesCount newPost = Some 0"
proof -
  obtain eco where eco: "integer_col (column_default (ip_ecoPoints post) 0) = Inr eco"
    using integer_col_contribution [OF assms(2,3)] by blast
  obtain water where water:
      "numeric_col 8 (column_default (ip_waterSaved post) (Decimal 0 0)) = Inr water"
    using numeric_col_contribution [of "ip_waterSaved post"] assms(4,5)
    unfolding contribution_waterSaved_def by blast
  obtain carbon where carbon:
      "numeric_col 8 (column_default (ip_carbonReduced post) (Decimal 0 0)) = Inr carbon"
    using numeric_col_contribution [of "ip_carbonReduced post"] assms(6,7)
    unfolding contribution_carbonReduced_def by blast
  show ?thesis
    unfolding insert_post_def eco water carbon using assms(1) by (simp add: Let_def)
qed

lemma getUser_posts_update [simp]: "getUser u (d\<lparr>posts := ps\<rparr>) = getUser u d"
  by (simp add: getUser_def)

lemma u_id_set_stats [simp]: "u_id (set_stats st usr) = u_id usr"
  by (simp add: set_stats_def)

lemma updateUserStats_succeeds:
  assumes "getUser u d = Some usr"
    and "- 2147483648 \<le> eco" "eco \<le> 2147483647"
    and "\<bar>round_scale2 water\<bar> < 10 ^ 10" and "\<bar>round_scale2 carbon\<bar> < 10 ^ 10"
    and "- 2147483648 \<le> items" "items \<le> 2147483647"
  shows "\<exists>d'. updateUserStats u
            \<lparr>s_ecoPoints = Some eco, s_waterSaved = Some water, s_carbonReduced = Some carbon,
             s_itemsReused = Some items\<rparr> d = Inr d' \<and>
          getUser u d' =
            Some (usr\<lparr>u_ecoPoints := Some eco,
                      u_waterSaved := Some (Decimal (round_scale2 water) 2),
                      u_carbonReduced := Some (Decimal (round_scale2 carbon) 2),
                      u_itemsReused := Some items\<rparr>)"
  using assms
  by (simp add: updateUserStats_def integer_col_fits numeric_col_fits getUser_def
                find_map_update set_stats_def)

text \<open>
  With the user present and the new values within the columns, \<^verbatim>\<open>createPost\<close>
  succeeds and the row of the user becomes \<open>credited usr post\<close>.
\<close>

lemma createPost_credits:
  assumes usr: "getUser (ip_userId post) d = Some usr"
    and nonneg: "0 \<le> contribution_ecoPoints post" "0 \<le> unscaled (contribution_waterSaved post)"
      "0 \<le> unscaled (contribution_carbonReduced post)"
    and start: "0 \<le> total_ecoPoints usr" "0 \<le> total_itemsReused usr"
      "stored_total (u_waterSaved usr)" "stored_total (u_carbonReduced usr)"
    and post_fits: "round_scale2 (contribution_waterSaved post) < 10 ^ 8"
      "round_scale2 (contribution_carbonReduced post) < 10 ^ 8"
    and fits: "total_ecoPoints usr + contribution_ecoPoints post \<le> 2147483647"
      "total_itemsReused usr + 1 \<le> 2147483647"
      "total_waterSaved usr + round_scale2 (contribution_waterSaved post) < 10 ^ 10"
      "total_carbonReduced usr + round_scale2 (contribution_carbonReduced post) < 10 ^ 10"
  shows "\<exists>newPost d2.
           createPost post d = (Inr newPost, checkAndAwardBadges (ip_userId post) d2) \<and>
           getUser (ip_userId post) d2 = Some (credited usr post) \<and>
           posts d2 = posts d @ [newPost] \<and> badges d2 = badges d \<and>
           userBadges d2 = userBadges d \<and>
           p_userId newPost = ip_userId post \<and> p_likesCount newPost = Some 0"
proof -
  let ?u = "ip_userId post"
  have c: "contribution_ecoPoints post \<le> 2147483647"
    using start(1) fits(1) by simp
  obtain newPost where ins:
      "insert_post post d = Inr (newPost, d\<lparr>posts := posts d @ [newPost]\<rparr>)"
    and newPost: "p_userId newPost = ip_userId post" "p_likesCount newPost = Some 0"
    using insert_post_succeeds [OF usr nonneg(1) c nonneg(2) post_fits(1) nonneg(3) post_fits(2)]
    by blast
  let ?d1 = "d\<lparr>posts := posts d @ [newPost]\<rparr>"
  let ?water = "parseFloat_sum (text_or (u_waterSaved usr) (Decimal 0 0))
                  (contribution_waterSaved post)"
  let ?carbon = "parseFloat_sum (text_or (u_carbonReduced usr) (Decimal 0 0))
                  (contribution_carbonReduced post)"
  have water: "round_scale2 ?water =
      total_waterSaved usr + round_scale2 (contribution_waterSaved post)"
    unfolding total_waterSaved_def using start(3) nonneg(2) by (rule total_sum)
  have carbon: "round_scale2 ?carbon =
      total_carbonReduced usr + round_scale2 (contribution_carbonReduced post)"
    unfolding total_carbonReduced_def using start(4) nonneg(3) by (rule total_sum)
  have w0: "0 \<le> total_waterSaved usr" "0 \<le> total_carbonReduced usr"
    unfolding total_waterSaved_def total_carbonReduced_def
    using start(3,4) by (simp_all add: total_nonneg)
  have wfit: "\<bar>round_scale2 ?water\<bar> < 10 ^ 10"
    unfolding water using w0(1) fits(3) round_scale2_nonneg [OF nonneg(2)] by simp
  have cfit: "\<bar>round_scale2 ?carbon\<bar> < 10 ^ 10"
    unfolding carbon using w0(2) fits(4) round_scale2_nonneg [OF nonneg(3)] by simp
  have usr1: "getUser ?u ?d1 = Some usr" using usr by simp
  obtain d2 where upd: "updateUserStats ?u
        \<lparr>s_ecoPoints = Some (total_ecoPoints usr + contribution_ecoPoints post),
         s_waterSaved = Some ?water, s_carbonReduced = Some ?carbon,
         s_itemsReused = Some (total_itemsReused usr + 1)\<rparr> ?d1 = Inr d2"
    and usr2: "getUser ?u d2 =
        Some (usr\<lparr>u_ecoPoints := Some (total_ecoPoints usr + contribution_ecoPoints post),
                  u_waterSaved := Some (Decimal (round_scale2 ?water) 2),
                  u_carbonReduced := Some (Decimal (round_scale2 ?carbon) 2),
                  u_itemsReused := Some (total_itemsReused usr + 1)\<rparr>)"
    using updateUserStats_succeeds [OF usr1, of "total_ecoPoints usr + contribution_ecoPoints post"
        ?water ?carbon "total_itemsReused usr + 1"]
      nonneg(1) start(1,2) fits(1,2) wfit cfit
    by auto
  have step: "update_stats_for_post post ?d1 = Inr (checkAndAwardBadges ?u d2)"
    using usr1 upd
    by (simp add: update_stats_for_post_def Let_def total_ecoPoints_def total_itemsReused_def
          contribution_ecoPoints_def contribution_waterSaved_def contribution_carbonReduced_def)
  have "createPost post d = (Inr newPost, checkAndAwardBadges ?u d2)"
    by (simp add: createPost_def ins step)
  moreover have "getUser ?u d2 = Some (credited usr post)"
    using usr2 by (simp add: credited_def water carbon)
  moreover have "posts d2 = posts d @ [newPost] \<and> badges d2 = badges d \<and>
      userBadges d2 = userBadges d"
    using updateUserStats_tables [OF upd] by simp
  ultimately show ?thesis using newPost by blast
qed


subsection \<open>A sequence of post creations\<close>

lemma total_ecoPoints_credited [simp]:
  "total_ecoPoints (credited usr post) = total_ecoPoints usr + contribution_ecoPoints post"
  by (simp add: credited_def total_ecoPoints_def number_or_def)

lemma total_itemsReused_credited [simp]:
  "total_itemsReused (credited usr post) = total_itemsReused usr + 1"
  by (simp add: credited_def total_itemsReused_def number_or_def)

lemma total_waterSaved_credited [simp]:
  "total_waterSaved (credited usr post) =
     total_waterSaved usr + round_scale2 (contribution_waterSaved post)"
  by (simp add: credited_def total_waterSaved_def text_or_def round_scale2_def)

lemma total_carbonReduced_credited [simp]:
  "total_carbonReduced (credited usr post) =
     total_carbonReduced usr + round_scale2 (contribution_carbonReduced post)"
  by (simp add: credited_def total_carbonReduced_def text_or_def round_scale2_def)








subsection \<open>Accumulation\<close>





subsection \<open>A post of an unknown user\<close>

text \<open>
  Claim C6, as the code has it. When the user id of a post references no user,
  \<^verbatim>\<open>createPost\<close> throws at the insert of the post, because \<^verbatim>\<open>posts.userId\<close> references
  \<^verbatim>\<open>users.id\<close>: the store is unchanged, so no post is persisted, no total changes and no
  badge is evaluated; with values that fit their columns the error is the violated
  reference. The block that updates the stats, run on a store without that user, is
  skipped and changes nothing.
\<close>

theorem createPost_unknown_user:
  assumes "getUser (ip_userId post) d = None"
  shows "(\<exists>e. createPost post d = (Inl e, d)) \<and>
         (accepted_contribution post \<and> contribution_ecoPoints post \<le> 2147483647 \<longrightarrow>
            createPost post d = (Inl ForeignKeyViolation, d)) \<and>
         update_stats_for_post post d = Inr d"
proof (intro conjI impI)
  show "\<exists>e. createPost post d = (Inl e, d)"
    using assms
    by (auto simp: createPost_def insert_post_def split: sum.splits)
  show "update_stats_for_post post d = Inr d"
    using assms by (simp add: update_stats_for_post_def)
  assume a: "accepted_contribution post \<and> contribution_ecoPoints post \<le> 2147483647"
  then obtain eco where eco: "integer_col (column_default (ip_ecoPoints post) 0) = Inr eco"
    using integer_col_contribution [of post] by (auto simp: accepted_contribution_def)
  from a obtain water where water:
      "numeric_col 8 (column_default (ip_waterSaved post) (Decimal 0 0)) = Inr water"
    using numeric_col_contribution [of "ip_waterSaved post"]
    unfolding contribution_waterSaved_def accepted_contribution_def by blast
  from a obtain carbon where carbon:
      "numeric_col 8 (column_default (ip_carbonReduced post) (Decimal 0 0)) = Inr carbon"
    using numeric_col_contribution [of "ip_carbonReduced post"]
    unfolding contribution_carbonReduced_def accepted_contribution_def by blast
  show "createPost post d = (Inl ForeignKeyViolation, d)"
    using assms by (simp add: createPost_def insert_post_def eco water carbon)
qed

text \<open>
  The post of an unknown user is not persisted and not returned: the call ends in an
  error.
\<close>

theorem createPost_unknown_user_counterexample:
  "getUser ''ghost'' (seeded_store [user_with ''u1'' 0 (Decimal 0 0) (Decimal 0 0) 0]) = None \<and>
   fst (createPost (post_of ''ghost'' 50 (Decimal 25 1) (Decimal 12 1))
          (seeded_store [user_with ''u1'' 0 (Decimal 0 0) (Decimal 0 0) 0])) = Inl ForeignKeyViolation \<and>
   posts (snd (createPost (post_of ''ghost'' 50 (Decimal 25 1) (Decimal 12 1))
          (seeded_store [user_with ''u1'' 0 (Decimal 0 0) (Decimal 0 0) 0]))) = []"
  by code_simp

theorem createPost_unknown_user_witness:
  "getUser (ip_userId (post_of ''ghost'' 50 (Decimal 25 1) (Decimal 12 1)))
     (seeded_store [user_with ''u1'' 0 (Decimal 0 0) (Decimal 0 0) 0]) = None \<and>
   accepted_contribution (post_of ''ghost'' 50 (Decimal 25 1) (Decimal 12 1)) \<and>
   createPost (post_of ''ghost'' 50 (Decimal 25 1) (Decimal 12 1))
     (seeded_store [user_with ''u1'' 0 (Decimal 0 0) (Decimal 0 0) 0]) =
     (Inl ForeignKeyViolation, seeded_store [user_with ''u1'' 0 (Decimal 0 0) (Decimal 0 0) 0])"
proof -
  let ?p = "post_of ''ghost'' 50 (Decimal 25 1) (Decimal 12 1)"
  let ?d = "seeded_store [user_with ''u1'' 0 (Decimal 0 0) (Decimal 0 0) 0]"
  have h: "getUser (ip_userId ?p) ?d = None" by code_simp
  have a: "accepted_contribution ?p" and c: "contribution_ecoPoints ?p \<le> 2147483647"
    by code_simp+
  from createPost_unknown_user [OF h] a c
  have "createPost ?p ?d = (Inl ForeignKeyViolation, ?d)" by blast
  with h a show ?thesis by blast
qed


subsection \<open>The first post of a new user\<close>

lemma no_threshold_met:
  assumes "p_likesCount newPost = Some 0"
  shows "\<not> shouldAward requirement (user_with u 50 (Decimal 250 2) (Decimal 120 2) 1) [newPost]"
  using assms
  by (simp add: shouldAward_def user_with_def number_or_def text_or_def parseFloat_ge_def
        avgLikes_def totalLikes_def js_divide_def)

lemma credited_first_post:
  assumes "sw \<le> 2" "sc \<le> 2"
  shows "credited (user_with u 0 (Decimal 0 sw) (Decimal 0 sc) 0)
           (post_of u 50 (Decimal 25 1) (Decimal 12 1)) =
         user_with u 50 (Decimal 250 2) (Decimal 120 2) 1"
  using assms
  by (simp add: credited_def user_with_def post_of_def total_ecoPoints_def total_itemsReused_def
        total_waterSaved_def total_carbonReduced_def contribution_ecoPoints_def
        contribution_waterSaved_def contribution_carbonReduced_def number_or_def text_or_def
        defined_def round_scale2_def)

text \<open>
  Claim C4. A user whose totals are eco-points 0, water-saved 0, carbon-reduced 0 (each
  written with at most two decimal places, so \<^verbatim>\<open>"0"\<close> and \<^verbatim>\<open>"0.00"\<close> alike) and
  items-reused 0, and who has no posts, creates a post with the contribution 50,
  \<^verbatim>\<open>"2.5"\<close>, \<^verbatim>\<open>"1.2"\<close>. The creation succeeds; the persisted totals are eco-points 50,
  water-saved 2.50, carbon-reduced 1.20 (read back as the texts \<^verbatim>\<open>"2.50"\<close> and
  \<^verbatim>\<open>"1.20"\<close>) and items-reused 1; the award table is unchanged, whatever the catalog.
\<close>

theorem first_post_scenario:
  assumes "getUser u d = Some (user_with u 0 (Decimal 0 sw) (Decimal 0 sc) 0)"
    and "sw \<le> 2" "sc \<le> 2"
    and "getPostsByUser u d = []"
  shows "\<exists>newPost d'.
           createPost (post_of u 50 (Decimal 25 1) (Decimal 12 1)) d = (Inr newPost, d') \<and>
           getUser u d' = Some (user_with u 50 (Decimal 250 2) (Decimal 120 2) 1) \<and>
           map_option numeric_text (u_waterSaved (user_with u 50 (Decimal 250 2) (Decimal 120 2) 1))
             = Some ''2.50'' \<and>
           map_option numeric_text (u_carbonReduced (user_with u 50 (Decimal 250 2) (Decimal 120 2) 1))
             = Some ''1.20'' \<and>
           userBadges d' = userBadges d"
proof -
  let ?usr = "user_with u 0 (Decimal 0 sw) (Decimal 0 sc) 0"
  let ?post = "post_of u 50 (Decimal 25 1) (Decimal 12 1)"
  let ?new = "user_with u 50 (Decimal 250 2) (Decimal 120 2) 1"
  have u: "ip_userId ?post = u" by (simp add: post_of_def)
  have "\<exists>newPost d2.
           createPost ?post d = (Inr newPost, checkAndAwardBadges (ip_userId ?post) d2) \<and>
           getUser (ip_userId ?post) d2 = Some (credited ?usr ?post) \<and>
           posts d2 = posts d @ [newPost] \<and> badges d2 = badges d \<and>
           userBadges d2 = userBadges d \<and>
           p_userId newPost = ip_userId ?post \<and> p_likesCount newPost = Some 0"
    using assms(1,2,3)
    by (intro createPost_credits)
       (simp_all add: u user_with_def post_of_def total_ecoPoints_def total_itemsReused_def
          total_waterSaved_def total_carbonReduced_def contribution_ecoPoints_def
          contribution_waterSaved_def contribution_carbonReduced_def number_or_def text_or_def
          defined_def round_scale2_def stored_total_def)
  then obtain newPost d2 where
    run: "createPost ?post d = (Inr newPost, checkAndAwardBadges u d2)"
    and usr: "getUser u d2 = Some ?new"
    and tables: "posts d2 = posts d @ [newPost]" "userBadges d2 = userBadges d"
    and newPost: "p_userId newPost = u" "p_likesCount newPost = Some 0"
    unfolding u credited_first_post [OF assms(2,3)] by blast
  from assms(4) have "filter (\<lambda>p. p_userId p = u) (posts d) = []"
    by (simp add: getPostsByUser_def)
  with tables(1) newPost(1) have history: "getPostsByUser u d2 = [newPost]"
    by (simp add: getPostsByUser_def)
  have "award_loop u ?new [newPost] (map b_name (getUserBadges u d2)) (badges d2) d2 = d2"
    by (rule award_loop_noop) (simp add: list_all_iff no_threshold_met [OF newPost(2)])
  then have "checkAndAwardBadges u d2 = d2"
    using usr history by (simp add: checkAndAwardBadges_def)
  with run usr tables(2) have
    "createPost ?post d = (Inr newPost, d2) \<and> getUser u d2 = Some ?new \<and>
     userBadges d2 = userBadges d"
    by simp
  moreover have "map_option numeric_text (u_waterSaved ?new) = Some ''2.50''"
    "map_option numeric_text (u_carbonReduced ?new) = Some ''1.20''"
    by (simp_all add: user_with_def numeric_text_def round_scale2_def nat_text.simps
          digit_char_def)
  ultimately show ?thesis by blast
qed

theorem first_post_scenario_witness:
  "getUser ''u1'' (seeded_store [user_with ''u1'' 0 (Decimal 0 0) (Decimal 0 0) 0]) =
     Some (user_with ''u1'' 0 (Decimal 0 0) (Decimal 0 0) 0) \<and>
   getPostsByUser ''u1'' (seeded_store [user_with ''u1'' 0 (Decimal 0 0) (Decimal 0 0) 0]) = [] \<and>
   (\<exists>newPost d'.
      createPost (post_of ''u1'' 50 (Decimal 25 1) (Decimal 12 1))
        (seeded_store [user_with ''u1'' 0 (Decimal 0 0) (Decimal 0 0) 0]) = (Inr newPost, d') \<and>
      getUser ''u1'' d' = Some (user_with ''u1'' 50 (Decimal 250 2) (Decimal 120 2) 1) \<and>
      userBadges d' = []) \<and>
   map_option numeric_text (u_waterSaved (user_with ''u1'' 50 (Decimal 250 2) (Decimal 120 2) 1))
     = Some ''2.50'' \<and>
   map_option numeric_text (u_carbonReduced (user_with ''u1'' 50 (Decimal 250 2) (Decimal 120 2) 1))
     = Some ''1.20''"
proof -
  let ?d = "seeded_store [user_with ''u1'' 0 (Decimal 0 0) (Decimal 0 0) 0]"
  have h1: "getUser ''u1'' ?d = Some (user_with ''u1'' 0 (Decimal 0 0) (Decimal 0 0) 0)"
    and h4: "getPostsByUser ''u1'' ?d = []" and e: "userBadges ?d = []"
    by code_simp+
  have h2: "(0::nat) \<le> 2" by simp
  from first_post_scenario [OF h1 h2 h2 h4] e h1 h4 show ?thesis
    by auto
qed


section \<open>Properties of the post-creation route\<close>

subsection \<open>Reading a decimal numeral\<close>













subsection \<open>The contribution of a created post\<close>









end
